theory Spec2Isabelle
  imports Main "HOL-Library.Char_ord" "HOL-Library.List_Lexorder"
begin

section \<open>Strings of the Go runtime\<close>

text \<open>
  A Go string is a sequence of bytes; \<open>len\<close> counts bytes. A byte and a rune (a code
  point) are read as integers. The model uses \<^typ>\<open>string\<close>
  (a list of 8-bit characters), so \<^const>\<open>length\<close> is Go's \<open>len\<close>. The functions of the
  packages \<open>unicode/utf8\<close>, \<open>unicode\<close>, \<open>strings\<close>, \<open>path/filepath\<close> and \<open>net/url\<close>
  that the program calls are written out below as the Go library defines them.
\<close>

definition byte :: "char \<Rightarrow> int" where
  "byte c = of_char c"

definition RuneError :: int where
  "RuneError = 65533"

definition inRange :: "int \<Rightarrow> int \<Rightarrow> char \<Rightarrow> bool" where
  "inRange lo hi c \<longleftrightarrow> lo \<le> byte c \<and> byte c \<le> hi"

text \<open>Lower and upper bound of the second byte of a multi-byte sequence, by its first byte.\<close>

definition secondLo :: "int \<Rightarrow> int" where
  "secondLo b0 = (if b0 = 224 then 160 else if b0 = 240 then 144 else 128)"

definition secondHi :: "int \<Rightarrow> int" where
  "secondHi b0 = (if b0 = 237 then 159 else if b0 = 244 then 143 else 191)"

text \<open>
  \<open>utf8.DecodeRuneInString\<close>: the first rune of the string and its width in bytes;
  \<open>(RuneError, 0)\<close> for the empty string and \<open>(RuneError, 1)\<close> where the bytes do not start
  a well-formed UTF-8 sequence.
\<close>

fun DecodeRuneInString :: "string \<Rightarrow> int \<times> nat" where
  "DecodeRuneInString [] = (RuneError, 0)"
| "DecodeRuneInString (c # cs) =
     (let b0 = byte c in
      if b0 < 128 then (b0, 1)
      else if 194 \<le> b0 \<and> b0 \<le> 223 then
        (case cs of
           c1 # _ \<Rightarrow>
             if inRange 128 191 c1 then ((b0 mod 32) * 64 + byte c1 mod 64, 2)
             else (RuneError, 1)
         | _ \<Rightarrow> (RuneError, 1))
      else if 224 \<le> b0 \<and> b0 \<le> 239 then
        (case cs of
           c1 # c2 # _ \<Rightarrow>
             if inRange (secondLo b0) (secondHi b0) c1 \<and> inRange 128 191 c2
             then ((b0 mod 16) * 4096 + (byte c1 mod 64) * 64 + byte c2 mod 64, 3)
             else (RuneError, 1)
         | _ \<Rightarrow> (RuneError, 1))
      else if 240 \<le> b0 \<and> b0 \<le> 244 then
        (case cs of
           c1 # c2 # c3 # _ \<Rightarrow>
             if inRange (secondLo b0) (secondHi b0) c1 \<and> inRange 128 191 c2
                \<and> inRange 128 191 c3
             then ((b0 mod 8) * 262144 + (byte c1 mod 64) * 4096
                   + (byte c2 mod 64) * 64 + byte c3 mod 64, 4)
             else (RuneError, 1)
         | _ \<Rightarrow> (RuneError, 1))
      else (RuneError, 1))"

text \<open>\<open>utf8.RuneStart\<close>: the byte is not a continuation byte.\<close>

definition RuneStart :: "char \<Rightarrow> bool" where
  "RuneStart c \<longleftrightarrow> \<not> inRange 128 191 c"

text \<open>
  The backward scan of \<open>utf8.DecodeLastRuneInString\<close>: from index \<open>start\<close> down to \<open>lim\<close>,
  stop at the first byte that can start a rune.
\<close>

function findRuneStart :: "string \<Rightarrow> int \<Rightarrow> int \<Rightarrow> int" where
  "findRuneStart s start lim =
     (if start \<ge> lim \<and> start \<ge> 0
      then (if RuneStart (s ! nat start) then start else findRuneStart s (start - 1) lim)
      else start)"
  by pat_completeness auto
termination
  by (relation "measure (\<lambda>(s, start, lim). nat (start + 1))") auto

declare findRuneStart.simps [simp del]

definition DecodeLastRuneInString :: "string \<Rightarrow> int \<times> nat" where
  "DecodeLastRuneInString s =
     (if s = [] then (RuneError, 0)
      else if byte (last s) < 128 then (byte (last s), 1)
      else
        (let end = int (length s);
             lim = max 0 (end - 4);
             start = max 0 (findRuneStart s (end - 2) lim);
             d = DecodeRuneInString (drop (nat start) s)
         in if start + int (snd d) \<noteq> end then (RuneError, 1) else d))"

text \<open>\<open>unicode.IsSpace\<close>: the code points with the Unicode property White\_Space.\<close>

definition IsSpace :: "int \<Rightarrow> bool" where
  "IsSpace r \<longleftrightarrow>
     (9 \<le> r \<and> r \<le> 13) \<or> r = 32 \<or> r = 133 \<or> r = 160 \<or> r = 5760
     \<or> (8192 \<le> r \<and> r \<le> 8202) \<or> r = 8232 \<or> r = 8233 \<or> r = 8239
     \<or> r = 8287 \<or> r = 12288"

lemma DecodeRuneInString_size_pos: "s \<noteq> [] \<Longrightarrow> 0 < snd (DecodeRuneInString s)"
  by (cases s) (simp_all add: Let_def split: list.split)

lemma DecodeRuneInString_size_le: "snd (DecodeRuneInString s) \<le> length s"
  by (cases s) (simp_all add: Let_def split: list.split)

lemma findRuneStart_le: "findRuneStart s start lim \<le> start"
proof (induction s start lim rule: findRuneStart.induct)
  case (1 s start lim)
  show ?case
  proof (cases "start \<ge> lim \<and> start \<ge> 0 \<and> \<not> RuneStart (s ! nat start)")
    case True
    with 1 have "findRuneStart s (start - 1) lim \<le> start - 1" by simp
    with True show ?thesis by (subst findRuneStart.simps) simp
  next
    case False
    then show ?thesis by (subst findRuneStart.simps) auto
  qed
qed

lemma DecodeLastRuneInString_size_pos:
  assumes "s \<noteq> []"
  shows "0 < snd (DecodeLastRuneInString s)"
proof -
  define start where
    "start = max 0 (findRuneStart s (int (length s) - 2) (max 0 (int (length s) - 4)))"
  have "length s \<ge> 1" using assms by (cases s) auto
  moreover have "findRuneStart s (int (length s) - 2) (max 0 (int (length s) - 4))
      \<le> int (length s) - 2"
    by (rule findRuneStart_le)
  ultimately have "start < int (length s)" by (auto simp: start_def)
  moreover have "0 \<le> start" by (simp add: start_def)
  ultimately have "nat start < length s" by (simp add: nat_less_iff)
  then have "drop (nat start) s \<noteq> []" by simp
  from DecodeRuneInString_size_pos [OF this] show ?thesis
    using assms
    by (simp add: DecodeLastRuneInString_def Let_def start_def [symmetric])
qed

text \<open>
  \<open>strings.Fields\<close>: the maximal runs of runes that are not white space. The first
  argument is the field collected so far.
\<close>

function fieldsFrom :: "string \<Rightarrow> string \<Rightarrow> string list" where
  "fieldsFrom cur s =
     (if s = [] then (if cur = [] then [] else [cur])
      else
        (let r = fst (DecodeRuneInString s); n = snd (DecodeRuneInString s) in
         if IsSpace r
         then (if cur = [] then fieldsFrom [] (drop n s) else cur # fieldsFrom [] (drop n s))
         else fieldsFrom (cur @ take n s) (drop n s)))"
  by pat_completeness auto
termination
proof (relation "measure (\<lambda>(cur, s). length s)")
  show "wf (measure (\<lambda>(cur, s). length s))" by simp
qed (use DecodeRuneInString_size_pos in \<open>auto simp: Let_def\<close>)

declare fieldsFrom.simps [simp del]

definition Fields :: "string \<Rightarrow> string list" where
  "Fields s = fieldsFrom [] s"

text \<open>
  \<open>strings.TrimSpace\<close>, which returns what \<open>strings.TrimFunc(s, unicode.IsSpace)\<close> returns:
  white-space runes are removed from the front, decoding forwards, then from the back,
  decoding backwards.
\<close>

function trimLeftSpace :: "string \<Rightarrow> string" where
  "trimLeftSpace s =
     (if s = [] then []
      else if IsSpace (fst (DecodeRuneInString s))
      then trimLeftSpace (drop (snd (DecodeRuneInString s)) s)
      else s)"
  by pat_completeness auto
termination
proof (relation "measure length")
  show "wf (measure length)" by simp
qed (use DecodeRuneInString_size_pos in \<open>auto\<close>)

declare trimLeftSpace.simps [simp del]

function trimRightSpace :: "string \<Rightarrow> string" where
  "trimRightSpace s =
     (if s = [] then []
      else if IsSpace (fst (DecodeLastRuneInString s))
      then trimRightSpace (take (length s - snd (DecodeLastRuneInString s)) s)
      else s)"
  by pat_completeness auto
termination
proof (relation "measure length")
  show "wf (measure length)" by simp
qed (use DecodeLastRuneInString_size_pos in \<open>auto\<close>)

declare trimRightSpace.simps [simp del]

definition TrimSpace :: "string \<Rightarrow> string" where
  "TrimSpace s = trimRightSpace (trimLeftSpace s)"

text \<open>
  \<open>strings.Split(s, sep)\<close> and \<open>strings.ReplaceAll(s, old, new)\<close> for a separator that is
  not empty, the only way the program calls them (\<open>"\n\n"\<close> and \<open>" "\<close>): the occurrences
  are found from the left and do not overlap. The first argument of \<open>splitFrom\<close> is the
  piece collected so far.
\<close>

function splitFrom :: "string \<Rightarrow> string \<Rightarrow> string \<Rightarrow> string list" where
  "splitFrom cur sep s =
     (if s = [] \<or> sep = [] then [cur @ s]
      else if take (length sep) s = sep then cur # splitFrom [] sep (drop (length sep) s)
      else splitFrom (cur @ [hd s]) sep (tl s))"
  by pat_completeness auto
termination
  by (relation "measure (\<lambda>(cur, sep, s). length s)") auto

declare splitFrom.simps [simp del]

definition Split :: "string \<Rightarrow> string \<Rightarrow> string list" where
  "Split s sep = splitFrom [] sep s"

function ReplaceAll :: "string \<Rightarrow> string \<Rightarrow> string \<Rightarrow> string" where
  "ReplaceAll s old new =
     (if s = [] \<or> old = [] then s
      else if take (length old) s = old then new @ ReplaceAll (drop (length old) s) old new
      else hd s # ReplaceAll (tl s) old new)"
  by pat_completeness auto
termination
  by (relation "measure (\<lambda>(s, old, new). length s)") auto

declare ReplaceAll.simps [simp del]





text \<open>
  \<open>url.QueryEscape\<close>: letters, digits and \<open>- _ . ~\<close> stay, a space becomes \<open>+\<close>, every
  other byte becomes \<open>%XX\<close> with upper-case hexadecimal digits.
\<close>

definition unreserved :: "char \<Rightarrow> bool" where
  "unreserved c \<longleftrightarrow>
     inRange 97 122 c \<or> inRange 65 90 c \<or> inRange 48 57 c
     \<or> c = CHR ''-'' \<or> c = CHR ''_'' \<or> c = CHR ''.'' \<or> c = CHR ''~''"

definition upperhex :: "int \<Rightarrow> char" where
  "upperhex n = ''0123456789ABCDEF'' ! nat (n mod 16)"

definition escapeByte :: "char \<Rightarrow> string" where
  "escapeByte c =
     (if unreserved c then [c]
      else if c = CHR '' '' then ''+''
      else [CHR ''%'', upperhex (byte c div 16), upperhex (byte c mod 16)])"

definition QueryEscape :: "string \<Rightarrow> string" where
  "QueryEscape s = concat (map escapeByte s)"

section \<open>Data model\<close>

text \<open>
  The repository holds two variants of the backend. \<open>src/backend/main.go\<close> delegates the
  text of a post to an external generation provider; the other \<open>main.go\<close> (the first
  unnamed source file) builds the post from a template. Both declare the same functions;
  where they differ, the definitions of the template variant carry the suffix \<open>_tmpl\<close>.

  \<open>BlogContent\<close> in \<open>src/backend/main.go\<close> has six fields, the template variant adds
  \<open>Citation\<close>, \<open>Items\<close> and \<open>Ordered\<close>. A Go \<open>int\<close> is modelled as \<^typ>\<open>int\<close>: the values
  are heading levels and word counts, far from the 64-bit bounds. A slice is modelled as
  a list, so a nil slice and an empty one are the same value.
\<close>

record BlogContent =
  Type :: string
  Text :: string
  Level :: int
  URL :: string
  Alt :: string
  Caption :: string

record BlogContent_tmpl = BlogContent +
  Citation :: string
  Items :: "string list"
  Ordered :: bool

text \<open>\<open>BlogPost\<close>, with the type of its content blocks as parameter.\<close>

record 'c BlogPost =
  ID :: string
  Title :: string
  Author :: string
  Date :: string
  Summary :: string
  Content :: "'c list"
  FeaturedImage :: string
  Tags :: "string list"
  ReadingTime :: int
  Topic :: string

record RequestBody =
  Topic :: string

record ScrapedContent =
  URL :: string
  Title :: string
  Text :: string
  PublishedAt :: string

record LlamaIndexPrompt =
  Topic :: string
  Contents :: "ScrapedContent list"

record LlamaIndexResponse =
  Title :: string
  Content :: "BlogContent list"
  FeaturedImage :: string
  Tags :: "string list"
  Summary :: string

record PexelsSrc =
  Medium :: string
  Large :: string

record PexelsPhoto =
  Src :: PexelsSrc

record PexelsResponse =
  Photos :: "PexelsPhoto list"

datatype error = Panic | IOError | NotExist | SyntaxError | TypeError | ProviderError

section \<open>The world outside the program\<close>

text \<open>
  What the collector hands to the \<open>OnHTML\<close> callback for one matched element: the URL of
  the request, the text \<open>ChildText\<close> returns for the title selector and for the date
  selector, and the text of each \<open>p\<close> descendant in document order.
\<close>

record html_element =
  requestURL :: string
  titleText :: string
  paragraphTexts :: "string list"
  dateText :: string

text \<open>
  One call of \<open>Collector.Visit\<close>: whether it returned an error, and the elements the
  callback ran on before it returned. No callback of the program follows a link, so a
  visit fetches the one page it is given.
\<close>

record visit_result =
  visitErr :: bool
  matched :: "html_element list"

text \<open>
  The outcome of the image provider call: \<open>http.NewRequest\<close> fails, \<open>client.Do\<close> fails, or
  a response arrives with a status code and a body that decodes to a \<open>PexelsResponse\<close> or
  does not.
\<close>

datatype pexels_outcome =
  NewRequestError
| DoError
| Response nat "PexelsResponse option"

record world =
  web :: "string \<Rightarrow> visit_result"
  scrapeDate :: string
  scrapeDateMinus2 :: string
  PEXELS_API_KEY :: string
  pexels :: "string \<Rightarrow> string \<Rightarrow> pexels_outcome"
  newUUID :: string
  postDate :: string
  llamaIndex :: "string \<Rightarrow> ScrapedContent list \<Rightarrow> error + LlamaIndexResponse"

section \<open>Extractor and crawler\<close>

text \<open>The body of \<open>e.ForEach("p", ...)\<close>: one paragraph appended to \<open>content.Text\<close>.\<close>

definition forEachP :: "ScrapedContent \<Rightarrow> string \<Rightarrow> ScrapedContent" where
  "forEachP content elText =
     (let paragraphText = TrimSpace elText in
      if length paragraphText > 20
      then content\<lparr>ScrapedContent.Text :=
             ScrapedContent.Text content @ paragraphText @ ''\<newline>\<newline>''\<rparr>
      else content)"

definition extractContent :: "html_element \<Rightarrow> ScrapedContent" where
  "extractContent e =
     (let content = \<lparr>ScrapedContent.URL = requestURL e, Title = titleText e, Text = '''',
                      PublishedAt = ''''\<rparr>;
          content = foldl forEachP content (paragraphTexts e);
          publishDate = dateText e
      in if publishDate \<noteq> '''' then content\<lparr>PublishedAt := publishDate\<rparr> else content)"

text \<open>
  The \<open>OnHTML\<close> callback; the state is the pair of the captured variables \<open>contents\<close>
  and \<open>count\<close>.
\<close>

definition onHTML ::
  "nat \<Rightarrow> ScrapedContent list \<times> nat \<Rightarrow> html_element \<Rightarrow> ScrapedContent list \<times> nat" where
  "onHTML maxCount st e =
     (let contents = fst st; count = snd st in
      if count \<ge> maxCount then st
      else
        (let content = extractContent e in
         if ScrapedContent.Title content \<noteq> '''' \<and> length (ScrapedContent.Text content) > 100
         then (contents @ [content], count + 1)
         else st))"

definition searchURL :: "string \<Rightarrow> string" where
  "searchURL topic = ''https://news.google.com/search?q='' @ ReplaceAll topic '' '' ''+''"

definition wikiURL :: "string \<Rightarrow> string" where
  "wikiURL topic = ''https://en.wikipedia.org/wiki/'' @ ReplaceAll topic '' '' ''_''"

text \<open>The two simulated articles of \<open>src/backend/main.go\<close>.\<close>

definition simulated :: "world \<Rightarrow> string \<Rightarrow> ScrapedContent list" where
  "simulated w topic =
     [\<lparr>ScrapedContent.URL = ''https://example.com/article1'',
       Title = ''Latest developments on '' @ topic,
       Text = ''This is a simulated article about '' @ topic @ ''. It contains information about the topic that would have been scraped from actual news sources.\<newline>\<newline>Experts have been discussing '' @ topic @ '' extensively.\<newline>\<newline>Further research on '' @ topic @ '' is ongoing.'',
       PublishedAt = scrapeDate w\<rparr>,
      \<lparr>ScrapedContent.URL = ''https://example.com/article2'',
       Title = ''Historical context of '' @ topic,
       Text = ''Here'' @ [CHR 0x27] @ ''s some historical background on '' @ topic @ ''. This topic has evolved over time.\<newline>\<newline>Many factors have shaped '' @ topic @ '' today.\<newline>\<newline>Communities have experienced '' @ topic @ '' differently.'',
       PublishedAt = scrapeDateMinus2 w\<rparr>]"

text \<open>
  \<open>scrapeContentForTopic\<close> of \<open>src/backend/main.go\<close>: \<open>maxCount\<close> is 50, a failure of the
  fallback visit is logged, and the two simulated articles are appended when fewer than
  five records were collected. The function returns a nil error on every path.
\<close>

definition scrapeContentForTopic :: "world \<Rightarrow> string \<Rightarrow> error + ScrapedContent list" where
  "scrapeContentForTopic w topic =
     (let st = ([], 0);
          r1 = web w (searchURL topic);
          st = foldl (onHTML 50) st (matched r1);
          st = (if visitErr r1 then foldl (onHTML 50) st (matched (web w (wikiURL topic)))
                else st);
          contents = fst st
      in if length contents < 5 then Inr (contents @ simulated w topic) else Inr contents)"

text \<open>The two simulated articles of the template variant.\<close>

definition simulated_tmpl :: "world \<Rightarrow> string \<Rightarrow> ScrapedContent list" where
  "simulated_tmpl w topic =
     [\<lparr>ScrapedContent.URL = ''https://example.com/article1'',
       Title = ''Latest developments on '' @ topic,
       Text = ''This is a simulated article about '' @ topic @ ''. It contains information about the topic that would have been scraped from actual news sources. The content includes various aspects and perspectives on the subject matter.\<newline>\<newline>Experts have been discussing the implications of recent developments related to '' @ topic @ ''. Some argue that it represents a significant shift in how we understand the topic.\<newline>\<newline>Further research is ongoing to fully understand the nuances of '' @ topic @ '' and its impact on various sectors.'',
       PublishedAt = scrapeDate w\<rparr>,
      \<lparr>ScrapedContent.URL = ''https://example.com/article2'',
       Title = ''Historical context of '' @ topic,
       Text = ''Here'' @ [CHR 0x27] @ ''s some historical background on '' @ topic @ ''. This topic has evolved significantly over the past decade.\<newline>\<newline>Many factors have contributed to how '' @ topic @ '' is perceived today. Economic, social, and political elements all play a role in shaping the discourse.\<newline>\<newline>Communities worldwide have experienced the effects of '' @ topic @ '' in different ways. Their stories provide valuable insights into the global impact of this subject.'',
       PublishedAt = scrapeDateMinus2 w\<rparr>]"

text \<open>
  \<open>scrapeContentForTopic\<close> of the template variant: \<open>maxCount\<close> is 5; when the fallback
  visit fails too the function returns at once ("Return whatever we have, even if
  empty"); otherwise the simulated articles replace an empty result.
\<close>

definition scrapeContentForTopic_tmpl :: "world \<Rightarrow> string \<Rightarrow> error + ScrapedContent list" where
  "scrapeContentForTopic_tmpl w topic =
     (let st = ([], 0);
          r1 = web w (searchURL topic);
          st = foldl (onHTML 5) st (matched r1)
      in if visitErr r1
         then
           (let r2 = web w (wikiURL topic);
                st = foldl (onHTML 5) st (matched r2)
            in if visitErr r2 then Inr (fst st)
               else if length (fst st) = 0 then Inr (simulated_tmpl w topic)
               else Inr (fst st))
         else if length (fst st) = 0 then Inr (simulated_tmpl w topic)
         else Inr (fst st))"

section \<open>Image resolver\<close>

definition defaultImage :: string where
  "defaultImage = ''https://cdn.pixabay.com/photo/2018/01/12/10/19/fantasy-3077928_1280.jpg''"

text \<open>
  The request URL: \<open>url.Values.Encode\<close> writes the parameters sorted by key, each value
  escaped with \<open>url.QueryEscape\<close>.
\<close>

definition pexelsURL :: "string \<Rightarrow> string" where
  "pexelsURL topic =
     ''https://api.pexels.com/v1/search'' @ ''?'' @ ''per_page=1&query='' @ QueryEscape topic"

definition getTopicImage :: "world \<Rightarrow> string \<Rightarrow> string" where
  "getTopicImage w topic =
     (let apiKey = PEXELS_API_KEY w in
      if apiKey = '''' then defaultImage
      else
        (case pexels w (pexelsURL topic) apiKey of
           NewRequestError \<Rightarrow> defaultImage
         | DoError \<Rightarrow> defaultImage
         | Response statusCode body \<Rightarrow>
             if statusCode \<noteq> 200 then defaultImage
             else
               (case body of
                  None \<Rightarrow> defaultImage
                | Some pexelsResp \<Rightarrow>
                    if length (Photos pexelsResp) > 0
                    then Large (Src (hd (Photos pexelsResp)))
                    else defaultImage)))"

section \<open>Synthesizer\<close>

text \<open>
  The composite literals of \<open>generateBlogPost\<close>: the fields a literal does not name hold
  their zero value.
\<close>

definition emptyBlock :: BlogContent_tmpl where
  "emptyBlock = \<lparr>Type = '''', Text = '''', Level = 0, URL = '''', Alt = '''', Caption = '''',
                  Citation = '''', Items = [], Ordered = False\<rparr>"

definition headingBlock :: "int \<Rightarrow> string \<Rightarrow> BlogContent_tmpl" where
  "headingBlock level text =
     emptyBlock\<lparr>Type := ''heading'', Level := level, BlogContent.Text := text\<rparr>"

definition paragraphBlock :: "string \<Rightarrow> BlogContent_tmpl" where
  "paragraphBlock text = emptyBlock\<lparr>Type := ''paragraph'', BlogContent.Text := text\<rparr>"

definition imageBlock :: "string \<Rightarrow> string \<Rightarrow> string \<Rightarrow> BlogContent_tmpl" where
  "imageBlock url alt caption =
     emptyBlock\<lparr>Type := ''image'', BlogContent.URL := url, Alt := alt, Caption := caption\<rparr>"

definition listBlock :: "string list \<Rightarrow> bool \<Rightarrow> BlogContent_tmpl" where
  "listBlock items ordered = emptyBlock\<lparr>Type := ''list'', Items := items, Ordered := ordered\<rparr>"

definition quoteBlock :: "string \<Rightarrow> string \<Rightarrow> BlogContent_tmpl" where
  "quoteBlock text citation =
     emptyBlock\<lparr>Type := ''quote'', BlogContent.Text := text, Citation := citation\<rparr>"

definition minInt :: "int \<Rightarrow> int \<Rightarrow> int" where
  "minInt a b = (if a < b then a else b)"

text \<open>The slice expression \<open>xs[:n]\<close>, which panics when \<open>n\<close> is out of range.\<close>

definition sliceTo :: "'a list \<Rightarrow> int \<Rightarrow> error + 'a list" where
  "sliceTo xs n =
     (if 0 \<le> n \<and> n \<le> int (length xs) then Inr (take (nat n) xs) else Inl Panic)"

text \<open>The body of the loop over the first paragraphs of the first scraped record.\<close>

definition addParagraph :: "BlogContent_tmpl list \<Rightarrow> string \<Rightarrow> BlogContent_tmpl list" where
  "addParagraph content p = (if length p > 0 then content @ [paragraphBlock p] else content)"

definition skeleton :: "string \<Rightarrow> string \<Rightarrow> BlogContent_tmpl list" where
  "skeleton topic contentImage1 =
     [headingBlock 1 (''Understanding '' @ topic @ '': A Comprehensive Overview''),
      paragraphBlock (''In recent times, '' @ topic @ '' has become an increasingly important topic in global discourse. This article aims to provide a thorough analysis based on the latest information available from reliable sources.''),
      imageBlock contentImage1 (''Illustration of '' @ topic)
        (''Visual representation of key aspects related to '' @ topic),
      headingBlock 2 ''Current State and Recent Developments'']"

definition closing :: "string \<Rightarrow> string \<Rightarrow> BlogContent_tmpl list" where
  "closing topic contentImage2 =
     [headingBlock 2 ''Key Factors and Analysis'',
      paragraphBlock (''Several key factors influence the current state of '' @ topic @ ''. Understanding these elements is crucial for a comprehensive perspective.''),
      listBlock
        [''Economic implications of '' @ topic @ '' on global markets'',
         ''Social and cultural impact of '' @ topic @ '' on communities'',
         ''Technological advancements related to '' @ topic,
         ''Regulatory frameworks surrounding '' @ topic] False,
      imageBlock contentImage2 (''Impact of '' @ topic)
        (''Visualizing the multifaceted impact of '' @ topic),
      headingBlock 2 ''Expert Opinions and Insights'',
      quoteBlock (''The development of '' @ topic @ '' represents one of the most significant shifts in this field that we'' @ [CHR 0x27] @ ''ve seen in the past decade.'')
        ''Industry Expert'']"

text \<open>
  \<open>generateBlogPost\<close> (template variant). The index \<open>prompt.Contents[0]\<close> and the slice
  \<open>paragraphs[:minInt(3, len(paragraphs))]\<close> are the two places where the Go code could
  panic; the model returns \<open>Inl Panic\<close> there.
\<close>

definition generateBlogPost ::
  "world \<Rightarrow> LlamaIndexPrompt \<Rightarrow> error + BlogContent_tmpl BlogPost" where
  "generateBlogPost w prompt =
     (let topic = LlamaIndexPrompt.Topic prompt;
          blogID = newUUID w;
          featuredImageURL = getTopicImage w topic;
          contentImage1 = getTopicImage w (topic @ '' overview'');
          contentImage2 = getTopicImage w (topic @ '' detail'');
          blog = \<lparr>ID = blogID,
                  Title = ''Comprehensive Guide to '' @ topic @ '': Latest Insights and Developments'',
                  Author = ''AI Content Generator'',
                  Date = postDate w,
                  Summary = ''An in-depth look at '' @ topic @ '', examining the latest developments, key insights, and future implications based on the most current information available.'',
                  Content = skeleton topic contentImage1,
                  FeaturedImage = featuredImageURL,
                  Tags = [topic, ''News'', ''Analysis''],
                  ReadingTime = 5,
                  Topic = topic\<rparr>;
          added =
            (if length (Contents prompt) > 0
             then
               (case Contents prompt of
                  [] \<Rightarrow> Inl Panic
                | first # _ \<Rightarrow>
                    (let paragraphs = Split (ScrapedContent.Text first) ''\<newline>\<newline>'' in
                     case sliceTo paragraphs (minInt 3 (int (length paragraphs))) of
                       Inl e \<Rightarrow> Inl e
                     | Inr ps \<Rightarrow> Inr (foldl addParagraph (BlogPost.Content blog) ps)))
             else Inr (BlogPost.Content blog))
      in case added of
           Inl e \<Rightarrow> Inl e
         | Inr content \<Rightarrow>
             Inr (blog\<lparr>BlogPost.Content := content @ closing topic contentImage2\<rparr>))"

text \<open>\<open>estimateReadingTime\<close> of \<open>src/backend/main.go\<close>; the state of the loop is \<open>totalWords\<close>.\<close>

definition countBlock :: "int \<Rightarrow> 'a BlogContent_scheme \<Rightarrow> int" where
  "countBlock totalWords block =
     (if Type block = ''paragraph'' \<or> Type block = ''heading''
      then totalWords + int (length (Fields (BlogContent.Text block)))
      else totalWords)"

text \<open>
  Go's \<open>/\<close> on \<open>int\<close> truncates towards zero; \<open>totalWords\<close> is never negative, where that
  is \<^const>\<open>divide\<close> on \<^typ>\<open>int\<close>.
\<close>

definition estimateReadingTime :: "'a BlogContent_scheme list \<Rightarrow> int" where
  "estimateReadingTime content = (foldl countBlock 0 content) div 200 + 1"

section \<open>JSON encoding of the documents\<close>

text \<open>
  The store writes a post with \<open>encoding/json\<close> and reads it back with the same package.
  The model works on JSON values: which members the struct tags of the program produce
  (\<open>omitempty\<close> drops a member whose field holds its zero value) and how a JSON value is
  decoded into a struct (a member that names no field is ignored, a missing member
  leaves the zero value, \<open>null\<close> leaves a field as it is, a value of the wrong kind is an
  error). The text of a file is not modelled: a file either holds a JSON value or bytes
  that are not JSON. Member names are compared exactly, and where a name occurs twice
  the later member wins. The Go decoder goes on after a value of the wrong kind and
  reports the first such error at the end; the callers use the decoded post only when
  there was no error, so the model stops at the first error.
\<close>

datatype json =
  JNull
| JBool bool
| JNumber int
| JFraction string
| JString string
| JArray "json list"
| JObject "(string \<times> json) list"

text \<open>
  The encoder writes a Go string coerced to valid UTF-8: every byte that does not start
  a well-formed sequence is replaced by U+FFFD, the three bytes \<open>EF BF BD\<close>.
\<close>

function coerceUTF8 :: "string \<Rightarrow> string" where
  "coerceUTF8 s =
     (if s = [] then []
      else
        (let r = fst (DecodeRuneInString s); n = snd (DecodeRuneInString s) in
         if r = RuneError \<and> n = 1 then [CHR 0xEF, CHR 0xBF, CHR 0xBD] @ coerceUTF8 (drop 1 s)
         else take n s @ coerceUTF8 (drop n s)))"
  by pat_completeness auto
termination
proof (relation "measure length")
  show "wf (measure length)" by simp
qed (use DecodeRuneInString_size_pos in \<open>auto simp: Let_def\<close>)

declare coerceUTF8.simps [simp del]

definition ValidString :: "string \<Rightarrow> bool" where
  "ValidString s \<longleftrightarrow> coerceUTF8 s = s"

definition marshalString :: "string \<Rightarrow> json" where
  "marshalString s = JString (coerceUTF8 s)"

definition omitempty :: "string \<Rightarrow> bool \<Rightarrow> json \<Rightarrow> (string \<times> json) list" where
  "omitempty key isEmpty v = (if isEmpty then [] else [(key, v)])"

text \<open>The members of the six fields both variants of \<open>BlogContent\<close> share.\<close>

definition blockMembers :: "'a BlogContent_scheme \<Rightarrow> (string \<times> json) list" where
  "blockMembers b =
     [(''type'', marshalString (Type b))]
     @ omitempty ''text'' (BlogContent.Text b = '''') (marshalString (BlogContent.Text b))
     @ omitempty ''level'' (Level b = 0) (JNumber (Level b))
     @ omitempty ''url'' (BlogContent.URL b = '''') (marshalString (BlogContent.URL b))
     @ omitempty ''alt'' (Alt b = '''') (marshalString (Alt b))
     @ omitempty ''caption'' (Caption b = '''') (marshalString (Caption b))"

definition marshalBlogContent :: "BlogContent \<Rightarrow> json" where
  "marshalBlogContent b = JObject (blockMembers b)"


definition marshalBlogPost :: "('c \<Rightarrow> json) \<Rightarrow> 'c BlogPost \<Rightarrow> json" where
  "marshalBlogPost marshalBlock blog =
     JObject
       [(''id'', marshalString (ID blog)),
        (''title'', marshalString (BlogPost.Title blog)),
        (''author'', marshalString (Author blog)),
        (''date'', marshalString (Date blog)),
        (''summary'', marshalString (BlogPost.Summary blog)),
        (''content'', JArray (map marshalBlock (BlogPost.Content blog))),
        (''featuredImage'', marshalString (BlogPost.FeaturedImage blog)),
        (''tags'', JArray (map marshalString (BlogPost.Tags blog))),
        (''readingTime'', JNumber (ReadingTime blog)),
        (''topic'', marshalString (BlogPost.Topic blog))]"

text \<open>Decoding a JSON value into a field that holds \<open>cur\<close>.\<close>

definition unmarshalString :: "json \<Rightarrow> string \<Rightarrow> error + string" where
  "unmarshalString j cur =
     (case j of JString s \<Rightarrow> Inr s | JNull \<Rightarrow> Inr cur | _ \<Rightarrow> Inl TypeError)"

definition unmarshalInt :: "json \<Rightarrow> int \<Rightarrow> error + int" where
  "unmarshalInt j cur =
     (case j of JNumber n \<Rightarrow> Inr n | JNull \<Rightarrow> Inr cur | _ \<Rightarrow> Inl TypeError)"

definition unmarshalBool :: "json \<Rightarrow> bool \<Rightarrow> error + bool" where
  "unmarshalBool j cur =
     (case j of JBool b \<Rightarrow> Inr b | JNull \<Rightarrow> Inr cur | _ \<Rightarrow> Inl TypeError)"

fun collect :: "('a \<Rightarrow> error + 'b) \<Rightarrow> 'a list \<Rightarrow> error + 'b list" where
  "collect f [] = Inr []"
| "collect f (x # xs) =
     (case f x of
        Inl e \<Rightarrow> Inl e
      | Inr y \<Rightarrow> (case collect f xs of Inl e \<Rightarrow> Inl e | Inr ys \<Rightarrow> Inr (y # ys)))"

text \<open>A slice: \<open>null\<close> gives the nil slice, an array is decoded element by element.\<close>

definition unmarshalSlice :: "(json \<Rightarrow> error + 'a) \<Rightarrow> json \<Rightarrow> error + 'a list" where
  "unmarshalSlice elem j =
     (case j of JArray js \<Rightarrow> collect elem js | JNull \<Rightarrow> Inr [] | _ \<Rightarrow> Inl TypeError)"

fun unmarshalMembers ::
  "(string \<Rightarrow> json \<Rightarrow> 'a \<Rightarrow> error + 'a) \<Rightarrow> (string \<times> json) list \<Rightarrow> 'a \<Rightarrow> error + 'a" where
  "unmarshalMembers field [] v = Inr v"
| "unmarshalMembers field ((key, j) # ms) v =
     (case field key j v of Inl e \<Rightarrow> Inl e | Inr v' \<Rightarrow> unmarshalMembers field ms v')"

definition unmarshalStruct ::
  "(string \<Rightarrow> json \<Rightarrow> 'a \<Rightarrow> error + 'a) \<Rightarrow> 'a \<Rightarrow> json \<Rightarrow> error + 'a" where
  "unmarshalStruct field zero j =
     (case j of
        JObject ms \<Rightarrow> unmarshalMembers field ms zero
      | JNull \<Rightarrow> Inr zero
      | _ \<Rightarrow> Inl TypeError)"






definition zeroBlogPost :: "'c BlogPost" where
  "zeroBlogPost =
     \<lparr>ID = '''', Title = '''', Author = '''', Date = '''', Summary = '''', Content = [],
      FeaturedImage = '''', Tags = [], ReadingTime = 0, Topic = ''''\<rparr>"

definition postField ::
  "(json \<Rightarrow> error + 'c) \<Rightarrow> string \<Rightarrow> json \<Rightarrow> 'c BlogPost \<Rightarrow> error + 'c BlogPost" where
  "postField unmarshalBlock key j p =
     (if key = ''id'' then map_sum id (\<lambda>v. p\<lparr>ID := v\<rparr>) (unmarshalString j (ID p))
      else if key = ''title''
        then map_sum id (\<lambda>v. p\<lparr>BlogPost.Title := v\<rparr>) (unmarshalString j (BlogPost.Title p))
      else if key = ''author''
        then map_sum id (\<lambda>v. p\<lparr>Author := v\<rparr>) (unmarshalString j (Author p))
      else if key = ''date'' then map_sum id (\<lambda>v. p\<lparr>Date := v\<rparr>) (unmarshalString j (Date p))
      else if key = ''summary''
        then map_sum id (\<lambda>v. p\<lparr>BlogPost.Summary := v\<rparr>)
               (unmarshalString j (BlogPost.Summary p))
      else if key = ''content''
        then map_sum id (\<lambda>v. p\<lparr>BlogPost.Content := v\<rparr>) (unmarshalSlice unmarshalBlock j)
      else if key = ''featuredImage''
        then map_sum id (\<lambda>v. p\<lparr>BlogPost.FeaturedImage := v\<rparr>)
               (unmarshalString j (BlogPost.FeaturedImage p))
      else if key = ''tags''
        then map_sum id (\<lambda>v. p\<lparr>BlogPost.Tags := v\<rparr>)
               (unmarshalSlice (\<lambda>e. unmarshalString e '''') j)
      else if key = ''readingTime''
        then map_sum id (\<lambda>v. p\<lparr>ReadingTime := v\<rparr>) (unmarshalInt j (ReadingTime p))
      else if key = ''topic''
        then map_sum id (\<lambda>v. p\<lparr>BlogPost.Topic := v\<rparr>) (unmarshalString j (BlogPost.Topic p))
      else Inr p)"

definition unmarshalBlogPost :: "(json \<Rightarrow> error + 'c) \<Rightarrow> json \<Rightarrow> error + 'c BlogPost" where
  "unmarshalBlogPost unmarshalBlock j = unmarshalStruct (postField unmarshalBlock) zeroBlogPost j"

section \<open>Store\<close>

text \<open>
  The file system as the store sees it: the directory \<open>data/blogs\<close>, absent or a list of
  entries sorted by name as \<open>ReadDir\<close> returns them, whether it can be written to and
  whether it can be listed. An entry is a directory, a file that cannot be opened, or a
  file with its data. The model holds this one directory: a name with a path separator
  or a NUL byte lies outside of it, and every access to such a name fails, as does
  every access to a name of more than 255 bytes.
\<close>

datatype file_data = Malformed | Document json

datatype entry = Directory | Unreadable | File file_data

record filesystem =
  blogsDir :: "(string \<times> entry) list option"
  writable :: bool
  listable :: bool

definition plainName :: "string \<Rightarrow> bool" where
  "plainName name \<longleftrightarrow>
     CHR ''/'' \<notin> set name \<and> CHR 0x00 \<notin> set name \<and> length name \<le> 255"

fun putEntry :: "string \<Rightarrow> entry \<Rightarrow> (string \<times> entry) list \<Rightarrow> (string \<times> entry) list" where
  "putEntry name e [] = [(name, e)]"
| "putEntry name e ((n, x) # rest) =
     (if name = n then (name, e) # rest
      else if name < n then (name, e) # (n, x) # rest
      else (n, x) # putEntry name e rest)"

definition MkdirAll :: "filesystem \<Rightarrow> error option \<times> filesystem" where
  "MkdirAll fs =
     (case blogsDir fs of
        Some es \<Rightarrow> (None, fs)
      | None \<Rightarrow> if writable fs then (None, fs\<lparr>blogsDir := Some []\<rparr>) else (Some IOError, fs))"

definition WriteFile :: "filesystem \<Rightarrow> string \<Rightarrow> file_data \<Rightarrow> error option \<times> filesystem" where
  "WriteFile fs name d =
     (case blogsDir fs of
        None \<Rightarrow> (Some NotExist, fs)
      | Some es \<Rightarrow>
          if \<not> writable fs \<or> \<not> plainName name \<or> map_of es name = Some Directory
             \<or> map_of es name = Some Unreadable
          then (Some IOError, fs)
          else (None, fs\<lparr>blogsDir := Some (putEntry name (File d) es)\<rparr>))"

definition ReadFile :: "filesystem \<Rightarrow> string \<Rightarrow> error + file_data" where
  "ReadFile fs name =
     (case blogsDir fs of
        None \<Rightarrow> Inl NotExist
      | Some es \<Rightarrow>
          if \<not> plainName name then Inl NotExist
          else
            (case map_of es name of
               None \<Rightarrow> Inl NotExist
             | Some (File d) \<Rightarrow> Inr d
             | Some _ \<Rightarrow> Inl IOError))"


text \<open>\<open>filepath.Join(dataDir, id + ".json")\<close>, as a name inside the directory.\<close>

definition filePath :: "string \<Rightarrow> string" where
  "filePath ident = ident @ ''.json''"

definition unmarshalFile :: "(json \<Rightarrow> error + 'c) \<Rightarrow> file_data \<Rightarrow> error + 'c BlogPost" where
  "unmarshalFile unmarshalBlock d =
     (case d of Malformed \<Rightarrow> Inl SyntaxError | Document j \<Rightarrow> unmarshalBlogPost unmarshalBlock j)"

text \<open>
  \<open>saveBlogPost\<close> of \<open>src/backend/main.go\<close> returns the error of \<open>MkdirAll\<close>; the template
  variant ignores it and fails in \<open>WriteFile\<close> instead.
\<close>

definition saveBlogPost ::
  "('c \<Rightarrow> json) \<Rightarrow> filesystem \<Rightarrow> 'c BlogPost \<Rightarrow> error option \<times> filesystem" where
  "saveBlogPost marshalBlock fs blog =
     (case MkdirAll fs of
        (Some err, fs1) \<Rightarrow> (Some err, fs1)
      | (None, fs1) \<Rightarrow>
          WriteFile fs1 (filePath (ID blog)) (Document (marshalBlogPost marshalBlock blog)))"


text \<open>\<open>getBlogByID\<close>: both variants read the file of the id and decode it.\<close>

definition getBlogByID ::
  "(json \<Rightarrow> error + 'c) \<Rightarrow> filesystem \<Rightarrow> string \<Rightarrow> error + 'c BlogPost" where
  "getBlogByID unmarshalBlock fs ident =
     (case ReadFile fs (filePath ident) of
        Inl err \<Rightarrow> Inl err
      | Inr d \<Rightarrow> unmarshalFile unmarshalBlock d)"





section \<open>Generation handlers\<close>

text \<open>
  The answer of a handler: an error status, or status 200 with the post that is written
  to the response. The request body is given decoded, \<open>None\<close> where decoding it failed.
\<close>

datatype 'c response = is_HttpError: HttpError (status: nat) | HttpOK (post: "'c BlogPost")

text \<open>
  \<open>GenerateBlogWithLlamaIndex\<close> runs the external script on the topic and the scraped
  records and decodes its output; the world supplies that result.
\<close>

definition GenerateBlogWithLlamaIndex ::
  "world \<Rightarrow> string \<Rightarrow> ScrapedContent list \<Rightarrow> error + LlamaIndexResponse" where
  "GenerateBlogWithLlamaIndex w topic contents = llamaIndex w topic contents"

definition proxyURL :: "string \<Rightarrow> string" where
  "proxyURL u = ''http://localhost:8080/api/proxy-image?url='' @ QueryEscape u"

definition proxyBlock :: "BlogContent \<Rightarrow> BlogContent" where
  "proxyBlock block =
     (if Type block = ''image'' then block\<lparr>BlogContent.URL := proxyURL (BlogContent.URL block)\<rparr>
      else block)"

text \<open>\<open>generateBlogHandler\<close> of \<open>src/backend/main.go\<close>.\<close>

definition generateBlogHandler ::
  "world \<Rightarrow> filesystem \<Rightarrow> RequestBody option \<Rightarrow> BlogContent response \<times> filesystem" where
  "generateBlogHandler w fs req =
     (case req of
        None \<Rightarrow> (HttpError 400, fs)
      | Some reqBody \<Rightarrow>
          if RequestBody.Topic reqBody = '''' then (HttpError 400, fs)
          else
            (case scrapeContentForTopic w (RequestBody.Topic reqBody) of
               Inl err \<Rightarrow> (HttpError 500, fs)
             | Inr scrapedContents \<Rightarrow>
                 if length scrapedContents = 0 then (HttpError 404, fs)
                 else
                   (case GenerateBlogWithLlamaIndex w (RequestBody.Topic reqBody) scrapedContents of
                      Inl err \<Rightarrow> (HttpError 500, fs)
                    | Inr llamaResponse \<Rightarrow>
                        (let content = map proxyBlock (LlamaIndexResponse.Content llamaResponse);
                             featured = proxyURL (LlamaIndexResponse.FeaturedImage llamaResponse);
                             blog =
                               \<lparr>ID = newUUID w,
                                Title = LlamaIndexResponse.Title llamaResponse,
                                Author = ''AI Content Generator'',
                                Date = postDate w,
                                Summary = LlamaIndexResponse.Summary llamaResponse,
                                Content = content,
                                FeaturedImage = featured,
                                Tags = LlamaIndexResponse.Tags llamaResponse,
                                ReadingTime = estimateReadingTime content,
                                Topic = RequestBody.Topic reqBody\<rparr>
                         in case saveBlogPost marshalBlogContent fs blog of
                              (Some err, fs') \<Rightarrow> (HttpError 500, fs')
                            | (None, fs') \<Rightarrow> (HttpOK blog, fs')))))"


section \<open>Properties and scenarios\<close>

text \<open>
  The total word count as the specification words it: the number of white-space
  separated words, summed over the text of the heading and paragraph blocks.
\<close>

definition totalWordsSpec :: "'a BlogContent_scheme list \<Rightarrow> int" where
  "totalWordsSpec content =
     sum_list (map (\<lambda>b. int (length (Fields (BlogContent.Text b))))
       (filter (\<lambda>b. Type b = ''heading'' \<or> Type b = ''paragraph'') content))"


text \<open>
  A content block of the closed variant of the data model: one of the five types, a
  heading with a level from 1, a list with items.
\<close>

definition wellFormedBlock :: "BlogContent_tmpl \<Rightarrow> bool" where
  "wellFormedBlock b \<longleftrightarrow>
     Type b \<in> {''heading'', ''paragraph'', ''image'', ''quote'', ''list''}
     \<and> (Type b = ''heading'' \<longrightarrow> 1 \<le> Level b)
     \<and> (Type b = ''list'' \<longrightarrow> Items b \<noteq> [])"



definition validPost :: "('c \<Rightarrow> bool) \<Rightarrow> 'c BlogPost \<Rightarrow> bool" where
  "validPost validB p \<longleftrightarrow>
     ValidString (ID p) \<and> ValidString (BlogPost.Title p) \<and> ValidString (Author p)
     \<and> ValidString (Date p) \<and> ValidString (BlogPost.Summary p)
     \<and> list_all validB (BlogPost.Content p)
     \<and> ValidString (BlogPost.FeaturedImage p) \<and> list_all ValidString (BlogPost.Tags p)
     \<and> ValidString (BlogPost.Topic p)"



text \<open>
  Worlds for the scenarios. In \<open>offline\<close> every host is unreachable: each visit fails
  without a matched element, the image provider cannot be reached, no credential is
  configured and the generation provider fails. In \<open>sparse\<close> the pages are reached but
  hold nothing the callback matches.
\<close>

definition offline :: world where
  "offline =
     \<lparr>web = (\<lambda>u. \<lparr>visitErr = True, matched = []\<rparr>),
      scrapeDate = ''2025-03-14'', scrapeDateMinus2 = ''2025-03-12'',
      PEXELS_API_KEY = '''', pexels = (\<lambda>u k. DoError),
      newUUID = ''0b4c5f0e-8f1d-4c57-9d0a-3f2b6c1e7a90'', postDate = ''2025-03-14'',
      llamaIndex = (\<lambda>t c. Inl ProviderError)\<rparr>"

definition sparse :: world where
  "sparse = offline\<lparr>web := (\<lambda>u. \<lparr>visitErr = False, matched = []\<rparr>)\<rparr>"





text \<open>A text of \<open>n\<close> words.\<close>

definition wordsText :: "nat \<Rightarrow> string" where
  "wordsText n = concat (replicate n ''word '')"

definition plainBlock :: "string \<Rightarrow> string \<Rightarrow> BlogContent" where
  "plainBlock ty txt =
     \<lparr>Type = ty, Text = txt, Level = 0, URL = '''', Alt = '''', Caption = ''''\<rparr>"

text \<open>
  A world where the generation provider answers with a heading, a paragraph of five
  words, an image and a quote.
\<close>

definition providerResponse :: LlamaIndexResponse where
  "providerResponse =
     \<lparr>LlamaIndexResponse.Title = ''Renewable Energy Today'',
      Content =
        [plainBlock ''heading'' ''Overview'',
         plainBlock ''paragraph'' ''Wind and sun are abundant.'',
         (plainBlock ''image'' '''')\<lparr>BlogContent.URL := ''https://images.example.org/a b.png''\<rparr>,
         plainBlock ''quote'' ''The transition is under way.''],
      FeaturedImage = ''https://images.example.org/cover.png'',
      Tags = [''Energy''],
      Summary = ''A summary''\<rparr>"

definition provided :: world where
  "provided = offline\<lparr>llamaIndex := (\<lambda>t c. Inr providerResponse)\<rparr>"

definition emptyStore :: filesystem where
  "emptyStore = \<lparr>blogsDir = None, writable = True, listable = True\<rparr>"




definition renewable :: RequestBody where
  "renewable = \<lparr>RequestBody.Topic = ''Renewable Energy''\<rparr>"

text \<open>
  The handler of \<open>src/backend/main.go\<close> has rewritten the image URLs of a provider
  response: the featured image and the URL of every image block are the proxy URL of
  the original, which differs from it, and every other block is unchanged.
\<close>

definition proxied :: "LlamaIndexResponse \<Rightarrow> BlogContent BlogPost \<Rightarrow> bool" where
  "proxied resp blog \<longleftrightarrow>
     BlogPost.FeaturedImage blog
       = ''http://localhost:8080/api/proxy-image?url=''
         @ QueryEscape (LlamaIndexResponse.FeaturedImage resp)
     \<and> BlogPost.FeaturedImage blog \<noteq> LlamaIndexResponse.FeaturedImage resp
     \<and> length (BlogPost.Content blog) = length (LlamaIndexResponse.Content resp)
     \<and> (\<forall>i < length (LlamaIndexResponse.Content resp).
           if Type (LlamaIndexResponse.Content resp ! i) = ''image''
           then Type (BlogPost.Content blog ! i) = ''image''
                \<and> BlogContent.URL (BlogPost.Content blog ! i)
                    = ''http://localhost:8080/api/proxy-image?url=''
                      @ QueryEscape (BlogContent.URL (LlamaIndexResponse.Content resp ! i))
                \<and> BlogContent.URL (BlogPost.Content blog ! i)
                    \<noteq> BlogContent.URL (LlamaIndexResponse.Content resp ! i)
           else BlogPost.Content blog ! i = LlamaIndexResponse.Content resp ! i)"










section \<open>Auxiliary lemmas\<close>

lemma foldl_countBlock: "foldl countBlock a content = a + totalWordsSpec content"
  by (induction content arbitrary: a) (auto simp: countBlock_def totalWordsSpec_def)

lemma estimateReadingTime_spec:
  "estimateReadingTime content = totalWordsSpec content div 200 + 1"
  by (simp add: estimateReadingTime_def foldl_countBlock)

lemma totalWordsSpec_nonneg: "0 \<le> totalWordsSpec content"
  by (auto simp: totalWordsSpec_def intro!: sum_list_nonneg)

lemma fieldsFrom_letter:
  "byte c < 128 \<Longrightarrow> \<not> IsSpace (byte c) \<Longrightarrow> fieldsFrom cur (c # s) = fieldsFrom (cur @ [c]) s"
  by (subst fieldsFrom.simps) (simp add: Let_def)

lemma fieldsFrom_blank:
  "cur \<noteq> [] \<Longrightarrow> fieldsFrom cur (CHR '' '' # s) = cur # fieldsFrom [] s"
  by (subst fieldsFrom.simps) (simp add: Let_def byte_def IsSpace_def)

lemma fieldsFrom_word: "fieldsFrom [] (''word '' @ s) = ''word'' # fieldsFrom [] s"
  by (simp add: fieldsFrom_letter fieldsFrom_blank byte_def IsSpace_def)

lemma Fields_wordsText: "Fields (wordsText n) = replicate n ''word''"
proof (induction n)
  case 0
  show ?case by (simp add: Fields_def wordsText_def fieldsFrom.simps)
next
  case (Suc n)
  have "wordsText (Suc n) = ''word '' @ wordsText n" by (simp add: wordsText_def)
  with Suc show ?case by (simp only: Fields_def fieldsFrom_word) simp
qed

lemma foldl_forEachP:
  "ScrapedContent.Text (foldl forEachP c ps) =
     ScrapedContent.Text c
     @ concat (map (\<lambda>p. p @ ''\<newline>\<newline>'') (filter (\<lambda>p. 20 < length p) (map TrimSpace ps)))"
  by (induction ps arbitrary: c) (auto simp: forEachP_def Let_def)







lemma splitFrom_nonempty: "splitFrom cur sep s \<noteq> []"
  by (induction cur sep s rule: splitFrom.induct) (subst splitFrom.simps, simp)

lemma sliceTo_minInt: "xs \<noteq> [] \<Longrightarrow> sliceTo xs (minInt 3 (int (length xs))) = Inr (take 3 xs)"
  by (cases xs) (auto simp: sliceTo_def minInt_def)

lemma generateBlogPost_Inr:
  "generateBlogPost w prompt =
     Inr \<lparr>ID = newUUID w,
          Title = ''Comprehensive Guide to '' @ LlamaIndexPrompt.Topic prompt
                  @ '': Latest Insights and Developments'',
          Author = ''AI Content Generator'',
          Date = postDate w,
          Summary = ''An in-depth look at '' @ LlamaIndexPrompt.Topic prompt
                    @ '', examining the latest developments, key insights, and future implications based on the most current information available.'',
          Content =
            foldl addParagraph
              (skeleton (LlamaIndexPrompt.Topic prompt)
                 (getTopicImage w (LlamaIndexPrompt.Topic prompt @ '' overview'')))
              (case Contents prompt of
                 [] \<Rightarrow> []
               | first # _ \<Rightarrow> take 3 (Split (ScrapedContent.Text first) ''\<newline>\<newline>''))
            @ closing (LlamaIndexPrompt.Topic prompt)
                (getTopicImage w (LlamaIndexPrompt.Topic prompt @ '' detail'')),
          FeaturedImage = getTopicImage w (LlamaIndexPrompt.Topic prompt),
          Tags = [LlamaIndexPrompt.Topic prompt, ''News'', ''Analysis''],
          ReadingTime = 5,
          Topic = LlamaIndexPrompt.Topic prompt\<rparr>"
  by (cases "Contents prompt")
     (simp_all add: generateBlogPost_def Let_def Split_def sliceTo_minInt splitFrom_nonempty)

lemma wf_skeleton: "list_all wellFormedBlock (skeleton t i)"
  by (simp add: skeleton_def wellFormedBlock_def headingBlock_def paragraphBlock_def
      imageBlock_def emptyBlock_def)

lemma wf_closing: "list_all wellFormedBlock (closing t i)"
  by (simp add: closing_def wellFormedBlock_def headingBlock_def paragraphBlock_def
      imageBlock_def quoteBlock_def listBlock_def emptyBlock_def)

lemma wf_addParagraph:
  "list_all wellFormedBlock bs \<Longrightarrow> list_all wellFormedBlock (foldl addParagraph bs ps)"
  by (induction ps arbitrary: bs)
     (simp_all add: addParagraph_def wellFormedBlock_def paragraphBlock_def emptyBlock_def)

lemma handler_ok:
  assumes "generateBlogHandler w fs req = (HttpOK blog, fs')"
  shows "\<exists>reqBody scraped resp.
           req = Some reqBody
           \<and> scrapeContentForTopic w (RequestBody.Topic reqBody) = Inr scraped
           \<and> llamaIndex w (RequestBody.Topic reqBody) scraped = Inr resp
           \<and> blog =
               \<lparr>ID = newUUID w,
                Title = LlamaIndexResponse.Title resp,
                Author = ''AI Content Generator'',
                Date = postDate w,
                Summary = LlamaIndexResponse.Summary resp,
                Content = map proxyBlock (LlamaIndexResponse.Content resp),
                FeaturedImage = proxyURL (LlamaIndexResponse.FeaturedImage resp),
                Tags = LlamaIndexResponse.Tags resp,
                ReadingTime = estimateReadingTime (map proxyBlock (LlamaIndexResponse.Content resp)),
                Topic = RequestBody.Topic reqBody\<rparr>
           \<and> saveBlogPost marshalBlogContent fs blog = (None, fs')"
  using assms
  by (auto simp: generateBlogHandler_def GenerateBlogWithLlamaIndex_def Let_def
      split: option.splits if_splits sum.splits prod.splits)

lemma totalWords_plain:
  "totalWordsSpec [plainBlock ''paragraph'' (wordsText n), plainBlock ''image'' (wordsText m),
     plainBlock ''quote'' (wordsText k)] = int n"
  by (simp add: totalWordsSpec_def plainBlock_def Fields_wordsText)

lemma marshalString_valid: "ValidString s \<Longrightarrow> marshalString s = JString s"
  by (simp add: marshalString_def ValidString_def)

lemma unmarshal_simps:
  "unmarshalString (JString s) cur = Inr s"
  "unmarshalInt (JNumber n) icur = Inr n"
  "unmarshalBool (JBool t) bcur = Inr t"
  "unmarshalSlice f (JArray js) = collect f js"
  by (simp_all add: unmarshalString_def unmarshalInt_def unmarshalBool_def unmarshalSlice_def)




lemma collect_strings:
  "list_all ValidString xs \<Longrightarrow>
   collect (\<lambda>e. unmarshalString e '''') (map marshalString xs) = Inr xs"
  by (induction xs) (simp_all add: marshalString_valid unmarshal_simps)

lemma collect_map:
  "list_all (\<lambda>b. dec (enc b) = Inr b) bs \<Longrightarrow> collect dec (map enc bs) = Inr bs"
  by (induction bs) simp_all




lemma unmarshalBlogPost_marshal:
  assumes "validPost validB p" "list_all (\<lambda>b. dec (enc b) = Inr b) (BlogPost.Content p)"
  shows "unmarshalBlogPost dec (marshalBlogPost enc p) = Inr p"
  using assms
  by (cases p) (simp add: unmarshalBlogPost_def marshalBlogPost_def unmarshalStruct_def
      zeroBlogPost_def postField_def validPost_def marshalString_valid unmarshal_simps
      collect_strings collect_map)

lemma map_of_putEntry: "map_of (putEntry n e es) = (map_of es)(n \<mapsto> e)"
  by (induction es) (auto simp: fun_eq_iff)





lemma WriteFile_ok:
  assumes "WriteFile fs name d = (None, fs')"
  shows "\<exists>es. blogsDir fs = Some es \<and> writable fs \<and> plainName name
           \<and> fs' = fs\<lparr>blogsDir := Some (putEntry name (File d) es)\<rparr>"
  using assms by (auto simp: WriteFile_def split: option.splits if_splits)

lemma ReadFile_after_WriteFile:
  assumes "WriteFile fs name d = (None, fs')"
  shows "ReadFile fs' name = Inr d"
  using WriteFile_ok [OF assms] by (auto simp: ReadFile_def map_of_putEntry)


lemma saveBlogPost_ok:
  assumes "saveBlogPost enc fs p = (None, fs')"
  shows "WriteFile (snd (MkdirAll fs)) (filePath (ID p)) (Document (marshalBlogPost enc p))
           = (None, fs')"
  using assms by (simp add: saveBlogPost_def split: prod.splits option.splits)


lemma get_after_save:
  assumes "saveBlogPost enc fs p = (None, fs')"
    and "validPost validB p" and "list_all (\<lambda>b. dec (enc b) = Inr b) (BlogPost.Content p)"
  shows "getBlogByID dec fs' (ID p) = Inr p"
proof -
  from saveBlogPost_ok [OF assms(1)] have "ReadFile fs' (filePath (ID p)) = Inr (Document (marshalBlogPost enc p))"
    by (rule ReadFile_after_WriteFile)
  then show ?thesis
    by (simp add: getBlogByID_def unmarshalFile_def unmarshalBlogPost_marshal [OF assms(2,3)])
qed








lemma length_QueryEscape: "length u \<le> length (QueryEscape u)"
  by (induction u) (auto simp: QueryEscape_def escapeByte_def)

lemma proxyURL_differs: "proxyURL u \<noteq> u"
proof
  assume "proxyURL u = u"
  then have "length (proxyURL u) = length u" by simp
  with length_QueryEscape [of u] show False by (simp add: proxyURL_def)
qed





section \<open>The size of the corpus\<close>

text \<open>
  C1, as claimed: for every topic the crawl returns at least the configured minimum of
  records, also when every fetch fails. That does not hold. With every host unreachable
  the template variant returns the empty corpus (it returns as soon as the fallback
  visit fails), and \<open>src/backend/main.go\<close> returns the two simulated records, fewer than
  the five it tests for.
\<close>

theorem crawl_offline_below_minimum:
  "scrapeContentForTopic_tmpl offline ''Renewable Energy'' = Inr []
   \<and> length (projr (scrapeContentForTopic offline ''Renewable Energy'')) = 2"
  by code_simp

text \<open>
  C1, amended: the crawl never fails. In \<open>src/backend/main.go\<close> it returns at least two
  records for every topic and every behaviour of the network: the two simulated records
  are appended once when fewer than five were collected. In the template variant it
  returns at least one record whenever the primary or the fallback entry point was
  reached.
\<close>

theorem crawl_size_amended:
  "(\<exists>c. scrapeContentForTopic w topic = Inr c \<and> 2 \<le> length c)
   \<and> (\<exists>c. scrapeContentForTopic_tmpl w topic = Inr c
          \<and> (\<not> visitErr (web w (searchURL topic)) \<or> \<not> visitErr (web w (wikiURL topic))
               \<longrightarrow> 1 \<le> length c))"
proof
  show "\<exists>c. scrapeContentForTopic w topic = Inr c \<and> 2 \<le> length c"
    by (simp add: scrapeContentForTopic_def Let_def simulated_def)
  show "\<exists>c. scrapeContentForTopic_tmpl w topic = Inr c
          \<and> (\<not> visitErr (web w (searchURL topic)) \<or> \<not> visitErr (web w (wikiURL topic))
               \<longrightarrow> 1 \<le> length c)"
    by (auto simp: scrapeContentForTopic_tmpl_def Let_def simulated_tmpl_def Suc_le_eq)
qed

theorem crawl_size_amended_witness:
  "\<not> visitErr (web sparse (searchURL ''Renewable Energy''))
   \<and> scrapeContentForTopic_tmpl sparse ''Renewable Energy''
       = Inr (simulated_tmpl sparse ''Renewable Energy'')
   \<and> 1 \<le> length (simulated_tmpl sparse ''Renewable Energy'')
   \<and> 2 \<le> length (projr (scrapeContentForTopic sparse ''Renewable Energy''))"
proof -
  have h: "\<not> visitErr (web sparse (searchURL ''Renewable Energy''))"
    by (simp add: sparse_def offline_def)
  have r: "scrapeContentForTopic_tmpl sparse ''Renewable Energy''
      = Inr (simulated_tmpl sparse ''Renewable Energy'')"
    by (simp add: scrapeContentForTopic_tmpl_def Let_def sparse_def offline_def)
  from crawl_size_amended [of sparse "''Renewable Energy''"] h r show ?thesis
    by auto
qed

section \<open>The records of the corpus\<close>



section \<open>The body of an extracted record\<close>

text \<open>
  C7, as claimed: a trimmed paragraph of exactly 20 characters is kept, and the body has
  no trailing separator. Neither holds: the callback keeps a paragraph only when its
  trimmed text is longer than 20 bytes, so one of exactly 20 bytes is dropped, and it
  writes the blank line after every paragraph it keeps, the last one too.
\<close>

theorem extractor_drops_twenty:
  "length (TrimSpace ''  exactly twenty chars  '') = 20
   \<and> ScrapedContent.Text (extractContent
        \<lparr>requestURL = ''https://en.wikipedia.org/wiki/X'', titleText = ''X'',
         paragraphTexts = [''  exactly twenty chars  ''], dateText = ''''\<rparr>) = ''''
   \<and> ScrapedContent.Text (extractContent
        \<lparr>requestURL = ''https://en.wikipedia.org/wiki/X'', titleText = ''X'',
         paragraphTexts = [''  exactly twenty-one ch  ''], dateText = ''''\<rparr>)
       = ''exactly twenty-one ch\<newline>\<newline>''"
  by code_simp

text \<open>
  C7, amended: each paragraph text is trimmed of white space; the paragraphs whose
  trimmed text has 20 bytes or fewer are dropped; the body is the concatenation of the
  others, each followed by a blank line.
\<close>

theorem extractor_body_amended:
  "ScrapedContent.Text (extractContent e) =
     concat (map (\<lambda>p. p @ ''\<newline>\<newline>'')
       (filter (\<lambda>p. 20 < length p) (map TrimSpace (paragraphTexts e))))"
  by (simp add: extractContent_def Let_def foldl_forEachP)

section \<open>Image resolution\<close>



section \<open>Reading time\<close>

text \<open>
  C3, as claimed: every produced document has a reading time of \<open>W div 200 + 1\<close>. The
  template variant does not compute it: \<open>generateBlogPost\<close> sets the constant 5, here on
  a document of fewer than 200 words.
\<close>

theorem template_readingTime_constant:
  "ReadingTime (projr (generateBlogPost offline
       \<lparr>LlamaIndexPrompt.Topic = ''Renewable Energy'', Contents = []\<rparr>)) = 5
   \<and> totalWordsSpec (BlogPost.Content (projr (generateBlogPost offline
        \<lparr>LlamaIndexPrompt.Topic = ''Renewable Energy'', Contents = []\<rparr>))) div 200 + 1 = 1"
  by code_simp

text \<open>
  C3, amended: \<open>estimateReadingTime\<close> returns \<open>W div 200 + 1\<close>, where \<open>W\<close> counts the words
  of the heading and paragraph blocks only; that is at least 1, it is 1 for 199 words and
  2 for 200; the document the handler of \<open>src/backend/main.go\<close> returns carries this
  value. The document of the template variant carries the constant 5.
\<close>

theorem readingTime_amended:
  "estimateReadingTime content = totalWordsSpec content div 200 + 1
   \<and> 1 \<le> estimateReadingTime content
   \<and> (totalWordsSpec content = 199 \<longrightarrow> estimateReadingTime content = 1)
   \<and> (totalWordsSpec content = 200 \<longrightarrow> estimateReadingTime content = 2)
   \<and> (generateBlogHandler w fs req = (HttpOK blog, fs')
        \<longrightarrow> ReadingTime blog = totalWordsSpec (BlogPost.Content blog) div 200 + 1)
   \<and> (generateBlogPost w prompt = Inr tblog \<longrightarrow> ReadingTime tblog = 5)"
proof (intro conjI impI)
  show "estimateReadingTime content = totalWordsSpec content div 200 + 1"
    by (rule estimateReadingTime_spec)
  show "1 \<le> estimateReadingTime content"
    using totalWordsSpec_nonneg [of content]
    by (simp add: estimateReadingTime_spec pos_imp_zdiv_nonneg_iff)
  show "estimateReadingTime content = 1" if "totalWordsSpec content = 199"
    using that by (simp add: estimateReadingTime_spec)
  show "estimateReadingTime content = 2" if "totalWordsSpec content = 200"
    using that by (simp add: estimateReadingTime_spec)
  show "ReadingTime blog = totalWordsSpec (BlogPost.Content blog) div 200 + 1"
    if "generateBlogHandler w fs req = (HttpOK blog, fs')"
    using handler_ok [OF that] by (auto simp: estimateReadingTime_spec)
  show "ReadingTime tblog = 5" if "generateBlogPost w prompt = Inr tblog"
    using that by (auto simp: generateBlogPost_Inr)
qed

theorem readingTime_amended_witness:
  "totalWordsSpec [plainBlock ''paragraph'' (wordsText 199), plainBlock ''image'' (wordsText 40),
     plainBlock ''quote'' (wordsText 40)] = 199
   \<and> estimateReadingTime [plainBlock ''paragraph'' (wordsText 199),
        plainBlock ''image'' (wordsText 40), plainBlock ''quote'' (wordsText 40)] = 1
   \<and> totalWordsSpec [plainBlock ''paragraph'' (wordsText 200), plainBlock ''image'' (wordsText 40),
        plainBlock ''quote'' (wordsText 40)] = 200
   \<and> estimateReadingTime [plainBlock ''paragraph'' (wordsText 200),
        plainBlock ''image'' (wordsText 40), plainBlock ''quote'' (wordsText 40)] = 2
   \<and> \<not> is_HttpError (fst (generateBlogHandler provided emptyStore (Some renewable)))
   \<and> ReadingTime (post (fst (generateBlogHandler provided emptyStore (Some renewable))))
       = totalWordsSpec (BlogPost.Content
           (post (fst (generateBlogHandler provided emptyStore (Some renewable))))) div 200 + 1
   \<and> \<not> isl (generateBlogPost provided
          \<lparr>LlamaIndexPrompt.Topic = ''Renewable Energy'', Contents = []\<rparr>)
   \<and> ReadingTime (projr (generateBlogPost provided
          \<lparr>LlamaIndexPrompt.Topic = ''Renewable Energy'', Contents = []\<rparr>)) = 5"
proof -
  let ?c = "\<lambda>n. [plainBlock ''paragraph'' (wordsText n), plainBlock ''image'' (wordsText 40),
     plainBlock ''quote'' (wordsText 40)]"
  let ?h = "generateBlogHandler provided emptyStore (Some renewable)"
  let ?g = "generateBlogPost provided
     \<lparr>LlamaIndexPrompt.Topic = ''Renewable Energy'', Contents = []\<rparr>"
  have a: "totalWordsSpec (?c 199) = 199" and b: "totalWordsSpec (?c 200) = 200"
    by (simp_all add: totalWords_plain)
  have ok: "\<not> is_HttpError (fst ?h)" by code_simp
  then have h: "?h = (HttpOK (post (fst ?h)), snd ?h)"
    by (simp add: prod_eq_iff)
  have g: "?g = Inr (projr ?g)" by (simp add: generateBlogPost_Inr)
  from readingTime_amended [of "?c 199" provided emptyStore "Some renewable" "post (fst ?h)"
      "snd ?h" "\<lparr>LlamaIndexPrompt.Topic = ''Renewable Energy'', Contents = []\<rparr>"
      "projr ?g"]
    readingTime_amended [of "?c 200" provided emptyStore "Some renewable" "post (fst ?h)"
      "snd ?h" "\<lparr>LlamaIndexPrompt.Topic = ''Renewable Energy'', Contents = []\<rparr>"
      "projr ?g"]
    a b ok h g
  show ?thesis by (simp add: generateBlogPost_Inr)
qed

section \<open>The synthesizer on an empty corpus\<close>

text \<open>
  C8: \<open>generateBlogPost\<close> returns a document for every corpus, without an access out
  of bounds, and every block of it is well-formed. On the empty corpus the content is
  the four blocks of the skeleton followed by the six closing blocks of the template.
\<close>

theorem generateBlogPost_empty_corpus:
  "(\<exists>blog. generateBlogPost w prompt = Inr blog
       \<and> list_all wellFormedBlock (BlogPost.Content blog))
   \<and> (Contents prompt = [] \<longrightarrow>
        (\<exists>blog. generateBlogPost w prompt = Inr blog
           \<and> BlogPost.Content blog =
               skeleton (LlamaIndexPrompt.Topic prompt)
                 (getTopicImage w (LlamaIndexPrompt.Topic prompt @ '' overview''))
               @ closing (LlamaIndexPrompt.Topic prompt)
                   (getTopicImage w (LlamaIndexPrompt.Topic prompt @ '' detail''))
           \<and> length (BlogPost.Content blog) = 10
           \<and> ID blog = newUUID w
           \<and> BlogPost.Tags blog = [LlamaIndexPrompt.Topic prompt, ''News'', ''Analysis'']))"
  by (simp add: generateBlogPost_Inr wf_skeleton wf_closing wf_addParagraph)
     (simp add: skeleton_def closing_def)

theorem generateBlogPost_empty_corpus_witness:
  "Contents \<lparr>LlamaIndexPrompt.Topic = ''Renewable Energy'', Contents = []\<rparr> = []
   \<and> \<not> isl (generateBlogPost offline \<lparr>LlamaIndexPrompt.Topic = ''Renewable Energy'', Contents = []\<rparr>)
   \<and> map Type (BlogPost.Content (projr (generateBlogPost offline
         \<lparr>LlamaIndexPrompt.Topic = ''Renewable Energy'', Contents = []\<rparr>)))
       = [''heading'', ''paragraph'', ''image'', ''heading'', ''heading'', ''paragraph'', ''list'',
          ''image'', ''heading'', ''quote'']"
proof -
  let ?p = "\<lparr>LlamaIndexPrompt.Topic = ''Renewable Energy'', Contents = []\<rparr>"
  have h: "Contents ?p = []" by simp
  from generateBlogPost_empty_corpus [of offline ?p] h
  obtain blog where b: "generateBlogPost offline ?p = Inr blog"
    and c: "BlogPost.Content blog =
               skeleton (LlamaIndexPrompt.Topic ?p)
                 (getTopicImage offline (LlamaIndexPrompt.Topic ?p @ '' overview''))
               @ closing (LlamaIndexPrompt.Topic ?p)
                   (getTopicImage offline (LlamaIndexPrompt.Topic ?p @ '' detail''))"
    by blast
  from b c h show ?thesis
    by (simp add: skeleton_def closing_def headingBlock_def paragraphBlock_def imageBlock_def
        listBlock_def quoteBlock_def emptyBlock_def)
qed

section \<open>Saving a post and reading it back\<close>




section \<open>Listing the store with a corrupt record\<close>



section \<open>Image URLs behind the proxy\<close>

text \<open>
  C10: when the handler of \<open>src/backend/main.go\<close> answers with a post, the featured
  image and the URL of every image block of the post are
  \<open>http://localhost:8080/api/proxy-image?url=\<close> followed by the query-escaped URL the
  provider returned, never that URL itself; the other blocks are unchanged, and the post
  written to the store is the post returned.
\<close>

theorem handler_proxies_images:
  assumes "generateBlogHandler w fs req = (HttpOK blog, fs')"
  shows "\<exists>topic scraped resp.
           llamaIndex w topic scraped = Inr resp
           \<and> proxied resp blog
           \<and> ReadFile fs' (filePath (ID blog))
               = Inr (Document (marshalBlogPost marshalBlogContent blog))"
proof -
  from handler_ok [OF assms] obtain reqBody scraped resp where
    h: "req = Some reqBody
        \<and> scrapeContentForTopic w (RequestBody.Topic reqBody) = Inr scraped
        \<and> llamaIndex w (RequestBody.Topic reqBody) scraped = Inr resp
        \<and> blog =
               \<lparr>ID = newUUID w,
                Title = LlamaIndexResponse.Title resp,
                Author = ''AI Content Generator'',
                Date = postDate w,
                Summary = LlamaIndexResponse.Summary resp,
                Content = map proxyBlock (LlamaIndexResponse.Content resp),
                FeaturedImage = proxyURL (LlamaIndexResponse.FeaturedImage resp),
                Tags = LlamaIndexResponse.Tags resp,
                ReadingTime = estimateReadingTime (map proxyBlock (LlamaIndexResponse.Content resp)),
                Topic = RequestBody.Topic reqBody\<rparr>
        \<and> saveBlogPost marshalBlogContent fs blog = (None, fs')"
    by (elim exE) (erule that)
  from h have l: "llamaIndex w (RequestBody.Topic reqBody) scraped = Inr resp"
    by (elim conjE)
  from h have s: "saveBlogPost marshalBlogContent fs blog = (None, fs')"
    by (elim conjE)
  from h have b: "BlogPost.FeaturedImage blog = proxyURL (LlamaIndexResponse.FeaturedImage resp)
      \<and> BlogPost.Content blog = map proxyBlock (LlamaIndexResponse.Content resp)"
    by (elim conjE) simp
  have p: "proxied resp blog"
    using b proxyURL_differs by (auto simp: proxied_def proxyBlock_def proxyURL_def)
  have "ReadFile fs' (filePath (ID blog)) = Inr (Document (marshalBlogPost marshalBlogContent blog))"
    by (rule ReadFile_after_WriteFile [OF saveBlogPost_ok [OF s]])
  with l p show ?thesis by blast
qed

theorem handler_proxies_images_witness:
  "\<not> is_HttpError (fst (generateBlogHandler provided emptyStore (Some renewable)))
   \<and> BlogPost.FeaturedImage (post (fst (generateBlogHandler provided emptyStore (Some renewable))))
       = ''http://localhost:8080/api/proxy-image?url=https%3A%2F%2Fimages.example.org%2Fcover.png''
   \<and> BlogContent.URL (BlogPost.Content
         (post (fst (generateBlogHandler provided emptyStore (Some renewable)))) ! 2)
       = ''http://localhost:8080/api/proxy-image?url=https%3A%2F%2Fimages.example.org%2Fa+b.png''"
proof -
  let ?h = "generateBlogHandler provided emptyStore (Some renewable)"
  have ok: "\<not> is_HttpError (fst ?h)" by code_simp
  then have h: "?h = (HttpOK (post (fst ?h)), snd ?h)"
    by (simp add: prod_eq_iff)
  from handler_proxies_images [OF h] obtain topic scraped resp where
    r: "llamaIndex provided topic scraped = Inr resp \<and> proxied resp (post (fst ?h))"
    by blast
  then have resp: "resp = providerResponse" by (simp add: provided_def)
  have q: "QueryEscape ''https://images.example.org/cover.png''
        = ''https%3A%2F%2Fimages.example.org%2Fcover.png''"
    "QueryEscape ''https://images.example.org/a b.png''
        = ''https%3A%2F%2Fimages.example.org%2Fa+b.png''"
    by code_simp+
  from r have "proxied providerResponse (post (fst ?h))" by (simp add: resp)
  then have "BlogPost.FeaturedImage (post (fst ?h))
       = ''http://localhost:8080/api/proxy-image?url=''
         @ QueryEscape (LlamaIndexResponse.FeaturedImage providerResponse)"
    and "if Type (LlamaIndexResponse.Content providerResponse ! 2) = ''image''
           then Type (BlogPost.Content (post (fst ?h)) ! 2) = ''image''
                \<and> BlogContent.URL (BlogPost.Content (post (fst ?h)) ! 2)
                    = ''http://localhost:8080/api/proxy-image?url=''
                      @ QueryEscape (BlogContent.URL (LlamaIndexResponse.Content providerResponse ! 2))
                \<and> BlogContent.URL (BlogPost.Content (post (fst ?h)) ! 2)
                    \<noteq> BlogContent.URL (LlamaIndexResponse.Content providerResponse ! 2)
           else BlogPost.Content (post (fst ?h)) ! 2 = LlamaIndexResponse.Content providerResponse ! 2"
    by (simp_all add: proxied_def providerResponse_def)
  with ok q show ?thesis
    by (simp add: providerResponse_def plainBlock_def)
qed

section \<open>The scenario "Renewable Energy"\<close>




end
